theory Spec2Isabelle
  imports Complex_Main
begin

section \<open>The retry wrapper (openai-streaming-client/src/error\_handler.py)\<close>

text \<open>
  \<^verbatim>\<open>retry_with_backoff(func, max_retries=3, base_delay=1, max_delay=60)\<close> calls a
  nullary operation in a loop. The operation is a closure, so its behaviour may change
  from call to call: it is modelled as a function on a hidden state \<open>'s\<close> that yields
  one of the three things a call of \<open>func()\<close> can do and the next state.
\<close>

datatype ('a, 'e) attempt =
    Returned 'a
  | RaisedRetryable
  | RaisedOther 'e

text \<open>
  What the wrapper does to the outside world, in order: it calls the operation, it
  writes a warning to the log, it sleeps. The two messages of the source are plain
  string literals (they carry no \<^verbatim>\<open>f\<close> prefix), so the text that is logged and the
  text that is raised are the literals themselves, braces included.
\<close>

datatype event =
    Called
  | Warned string
  | Slept int

text \<open>
  The ways the wrapper raises: the summary exception after the loop, an exception of the
  operation that is not a \<^verbatim>\<open>RetryableError\<close>, and the two exceptions of
  \<^verbatim>\<open>time.sleep\<close>: \<^verbatim>\<open>ValueError\<close> for a negative argument and \<^verbatim>\<open>OverflowError\<close> for
  one that is too large. Both are raised inside the handler, so they leave the wrapper.
\<close>

datatype 'e failure =
    Exhausted string
  | Propagated 'e
  | SleepValueError
  | SleepOverflowError

text \<open>
  \<^verbatim>\<open>time.sleep\<close> turns its argument into a signed 64-bit count of nanoseconds, so the
  largest whole number of seconds it accepts is \<open>(2 ^ 63 - 1) div 10 ^ 9\<close>.
\<close>

definition sleep_max :: int where
  "sleep_max = 9223372036"

record ('a, 'e, 's) run =
  result :: "'e failure + 'a"
  trace :: "event list"
  final :: 's

definition warning_message :: string where
  "warning_message = ''Attempt {retries + 1} failed: {error}''"

definition exhausted_message :: string where
  "exhausted_message = ''Function failed after {max_retries} attempts''"

definition emit :: "event list \<Rightarrow> ('a, 'e, 's) run \<Rightarrow> ('a, 'e, 's) run" where
  "emit es r = r\<lparr>trace := es @ trace r\<rparr>"

text \<open>
  The \<^verbatim>\<open>while retries < max_retries\<close> loop, from the loop variables \<open>retries\<close> and
  \<open>delay\<close> and the operation's state. The trace holds the events from this point on.
\<close>

function retry_loop ::
  "('s \<Rightarrow> ('a, 'e) attempt \<times> 's) \<Rightarrow> int \<Rightarrow> int \<Rightarrow> int \<Rightarrow> int \<Rightarrow> 's \<Rightarrow> ('a, 'e, 's) run"
where
  "retry_loop func max_retries max_delay retries delay s =
     (if retries < max_retries then
        (case fst (func s) of
           Returned v \<Rightarrow> \<lparr>result = Inr v, trace = [Called], final = snd (func s)\<rparr>
         | RaisedOther e \<Rightarrow>
             \<lparr>result = Inl (Propagated e), trace = [Called], final = snd (func s)\<rparr>
         | RaisedRetryable \<Rightarrow>
             (if delay < 0 then
                \<lparr>result = Inl SleepValueError,
                 trace = [Called, Warned warning_message], final = snd (func s)\<rparr>
              else if sleep_max < delay then
                \<lparr>result = Inl SleepOverflowError,
                 trace = [Called, Warned warning_message], final = snd (func s)\<rparr>
              else
                emit [Called, Warned warning_message, Slept delay]
                  (retry_loop func max_retries max_delay (retries + 1)
                     (min (delay * 2) max_delay) (snd (func s)))))
      else \<lparr>result = Inl (Exhausted exhausted_message), trace = [], final = s\<rparr>)"
  by pat_completeness auto
termination
  by (relation "measure (\<lambda>(func, max_retries, max_delay, retries, delay, s).
                           nat (max_retries - retries))") auto

definition retry_with_backoff ::
  "('s \<Rightarrow> ('a, 'e) attempt \<times> 's) \<Rightarrow> int \<Rightarrow> int \<Rightarrow> int \<Rightarrow> 's \<Rightarrow> ('a, 'e, 's) run"
where
  "retry_with_backoff func max_retries base_delay max_delay s =
     retry_loop func max_retries max_delay 0 base_delay s"

text \<open>
  Reading a trace: for each call of the operation, the delays that were slept since the
  previous call (or since the start, for the first call), oldest first. The accumulator
  holds the delays seen since the last call, newest first.
\<close>

fun sleeps_before_calls :: "event list \<Rightarrow> int list \<Rightarrow> int list list" where
  "sleeps_before_calls [] acc = []"
| "sleeps_before_calls (Called # es) acc = rev acc # sleeps_before_calls es []"
| "sleeps_before_calls (Slept d # es) acc = sleeps_before_calls es (d # acc)"
| "sleeps_before_calls (Warned m # es) acc = sleeps_before_calls es acc"

fun is_call :: "event \<Rightarrow> bool" where
  "is_call Called = True"
| "is_call (Warned m) = False"
| "is_call (Slept d) = False"

fun is_sleep :: "event \<Rightarrow> bool" where
  "is_sleep Called = False"
| "is_sleep (Warned m) = False"
| "is_sleep (Slept d) = True"

definition calls :: "event list \<Rightarrow> nat" where
  "calls tr = length (filter is_call tr)"

definition sleeps :: "event list \<Rightarrow> event list" where
  "sleeps tr = filter is_sleep tr"

text \<open>An operation that raises \<^verbatim>\<open>RetryableError\<close> at every call.\<close>

definition always_retryable :: "unit \<Rightarrow> (unit, unit) attempt \<times> unit" where
  "always_retryable s = (RaisedRetryable, ())"

text \<open>An operation that raises some other exception at every call (say a \<^verbatim>\<open>KeyError\<close>).\<close>

definition always_other :: "unit \<Rightarrow> (unit, string) attempt \<times> unit" where
  "always_other s = (RaisedOther ''KeyError'', ())"

section \<open>The streaming runner (.reference/inference\_example/inference\_request.py)\<close>

text \<open>
  One element of the response stream, as the loop body sees it: a chunk whose
  \<^verbatim>\<open>choices[0].delta.content\<close> is a string (possibly empty), a chunk where
  \<^verbatim>\<open>choices\<close>, the delta or the content is missing, and a chunk on which reading
  these fields raises.
\<close>

datatype chunk =
    Content string
  | NoContent
  | Malformed

text \<open>
  The statements of the loop body after the test of line 46: the append to
  \<^verbatim>\<open>full_response\<close> (line 48), \<^verbatim>\<open>write\<close> (49), \<^verbatim>\<open>flush\<close> (50) and \<^verbatim>\<open>print\<close> (51).
  A \<open>point\<close> names the statement at which an exception arises, before the statement
  has had its effect.
\<close>

datatype point =
    BeforeAppend
  | BeforeWrite
  | BeforeFlush
  | BeforePrint

text \<open>
  What happens next in a run, as far as the channel and the clock decide it:
  \<^item> \<open>Chunk c\<close>: the channel delivers \<open>c\<close> and the loop body handles it undisturbed;
  \<^item> \<open>Stall\<close>: the channel stays silent, in the request itself or before the next chunk;
  \<^item> \<open>ChannelError\<close>: the request or the iteration raises;
  \<^item> \<open>Disturbed s p by_alarm\<close>: the channel delivers a chunk with content \<open>s\<close>, and
    while the body handles it an exception arises at \<open>p\<close>: the \<^verbatim>\<open>TimeoutException\<close> of
    the alarm going off just then (\<open>by_alarm\<close>), or the statement failing by itself.
  The end of the list is the end of the stream.
\<close>

datatype channel_event =
    Chunk chunk
  | Stall
  | ChannelError
  | Disturbed string point bool

record request =
  req_model :: "string option"
  req_prompt :: string
  req_temperature :: rat
  req_stream :: bool

record client =
  base_url :: string
  respond :: "request \<Rightarrow> channel_event list"

text \<open>
  What the program prints, one constructor for each \<^verbatim>\<open>print\<close> of the source, but
  for two groups: \<open>EnvironmentLines\<close> are the three lines with the values of the
  variables, after the header; \<open>FullErrorDetails\<close> are the lines of the outer handler.
\<close>

datatype printed =
    StreamingBanner "string option"
  | BaseUrlLine string
  | Echo string
  | ChunkErrorLine
  | StreamCompleteLine
  | TimeoutLine int
  | FullErrorDetails
  | EnvironmentHeader
  | EnvironmentLines
  | PromptReadError
  | PromptIsEmpty
  | PromptLength nat
  | NoCompletionGenerated
  | UnexpectedError

text \<open>
  The response file: what has reached the file and what \<^verbatim>\<open>write\<close> has put into the
  buffer since the last \<^verbatim>\<open>flush\<close>. Opening with mode \<^verbatim>\<open>"w"\<close> gives an empty file
  and is taken to succeed; a \<^verbatim>\<open>write\<close> or \<^verbatim>\<open>flush\<close> that fails is an event
  \<open>Disturbed\<close> of the run.
\<close>

record textfile =
  contents :: string
  pending :: string

definition opened :: textfile where
  "opened = \<lparr>contents = [], pending = []\<rparr>"

definition file_write :: "string \<Rightarrow> textfile \<Rightarrow> textfile" where
  "file_write s f = f\<lparr>pending := pending f @ s\<rparr>"

definition file_flush :: "textfile \<Rightarrow> textfile" where
  "file_flush f = \<lparr>contents = contents f @ pending f, pending = []\<rparr>"

definition file_close :: "textfile \<Rightarrow> textfile" where
  "file_close f = file_flush f"

record runner_state =
  full_response :: string
  response_file :: textfile
  console :: "printed list"
  alarm_pending :: bool

text \<open>
  The statements of lines 48 to 51, one by one, and the handler of lines 52 to 54, which
  reports the exception and lets the loop go on.
\<close>

definition accumulate :: "string \<Rightarrow> runner_state \<Rightarrow> runner_state" where
  "accumulate chunk_content st = st\<lparr>full_response := full_response st @ chunk_content\<rparr>"

definition write_out :: "string \<Rightarrow> runner_state \<Rightarrow> runner_state" where
  "write_out chunk_content st =
     st\<lparr>response_file := file_write chunk_content (response_file st)\<rparr>"

definition flush_out :: "runner_state \<Rightarrow> runner_state" where
  "flush_out st = st\<lparr>response_file := file_flush (response_file st)\<rparr>"

definition echo :: "string \<Rightarrow> runner_state \<Rightarrow> runner_state" where
  "echo chunk_content st = st\<lparr>console := console st @ [Echo chunk_content]\<rparr>"

definition report :: "runner_state \<Rightarrow> runner_state" where
  "report st = st\<lparr>console := console st @ [ChunkErrorLine]\<rparr>"

text \<open>
  The body of \<^verbatim>\<open>for chunk in completion\<close>, undisturbed: a chunk with a non-empty
  content is appended to \<^verbatim>\<open>full_response\<close>, written, flushed and echoed, in this
  order; a chunk without content (or with the empty string) is passed over; a chunk
  that raises when it is read is reported and passed over.
\<close>

fun process_chunk :: "runner_state \<Rightarrow> chunk \<Rightarrow> runner_state" where
  "process_chunk st (Content chunk_content) =
     (if chunk_content \<noteq> [] then
        echo chunk_content (flush_out (write_out chunk_content (accumulate chunk_content st)))
      else st)"
| "process_chunk st NoContent = st"
| "process_chunk st Malformed = report st"

text \<open>
  The body cut short by an exception: the statements before the point have had their
  effect, the handler reports, the loop goes on. With an empty content the test of
  line 46 fails and lines 48 to 51 are not reached, so nothing can arise there.
\<close>

fun interrupted :: "runner_state \<Rightarrow> string \<Rightarrow> point \<Rightarrow> runner_state" where
  "interrupted st s BeforeAppend = report st"
| "interrupted st s BeforeWrite =
     (if s \<noteq> [] then report (accumulate s st) else st)"
| "interrupted st s BeforeFlush =
     (if s \<noteq> [] then report (write_out s (accumulate s st)) else st)"
| "interrupted st s BeforePrint =
     (if s \<noteq> [] then report (flush_out (write_out s (accumulate s st))) else st)"

fun struck :: "string \<Rightarrow> point \<Rightarrow> bool" where
  "struck s BeforeAppend = True"
| "struck s BeforeWrite = (s \<noteq> [])"
| "struck s BeforeFlush = (s \<noteq> [])"
| "struck s BeforePrint = (s \<noteq> [])"

text \<open>
  An alarm that went off inside the body is spent: its exception was caught by the
  handler of the body, and no other alarm is set.
\<close>

definition disturb :: "runner_state \<Rightarrow> string \<Rightarrow> point \<Rightarrow> bool \<Rightarrow> runner_state" where
  "disturb st s p by_alarm =
     (let st' = interrupted st s p
      in if by_alarm then
           (if struck s p then st'\<lparr>alarm_pending := False\<rparr> else st')
         else st')"

text \<open>
  How the loop ends. On a silent channel the runner is woken by the alarm if one is
  pending; with no alarm pending it waits for ever (\<open>Blocked\<close>).
\<close>

datatype ending =
    EndOfStream
  | TimeoutException
  | OtherException
  | Blocked

fun consume :: "runner_state \<Rightarrow> channel_event list \<Rightarrow> runner_state \<times> ending" where
  "consume st [] = (st, EndOfStream)"
| "consume st (Chunk c # es) = consume (process_chunk st c) es"
| "consume st (Stall # es) = (st, if alarm_pending st then TimeoutException else Blocked)"
| "consume st (ChannelError # es) = (st, OtherException)"
| "consume st (Disturbed s p by_alarm # es) = consume (disturb st s p by_alarm) es"

text \<open>
  \<^verbatim>\<open>signal.alarm(seconds)\<close> takes a C \<^verbatim>\<open>int\<close>: outside its range the call raises
  \<^verbatim>\<open>OverflowError\<close>; with 0 no alarm is set; any other value sets one (a negative value
  is read as a large unsigned one). The runner is taken to run in the main thread, where
  \<^verbatim>\<open>signal.signal\<close> succeeds.
\<close>

datatype arming =
    Armed
  | NotArmed
  | ArmingFails

definition signal_alarm :: "int \<Rightarrow> arming" where
  "signal_alarm seconds =
     (if seconds < - (2 ^ 31) then ArmingFails
      else if 2 ^ 31 \<le> seconds then ArmingFails
      else if seconds = 0 then NotArmed
      else Armed)"

text \<open>
  What a call of \<^verbatim>\<open>create_completion\<close> leaves behind: the value returned, the response
  file, the lines printed, the requests sent to the completion capability, and whether
  the call hangs (it never returns, and the other fields tell how far it got).
\<close>

record completion =
  returned :: "string option"
  saved :: textfile
  shown :: "printed list"
  requests :: "request list"
  hangs :: bool

text \<open>
  The state in which the loop starts: nothing accumulated, the response file freshly
  opened, the two header lines printed, the alarm set or not.
\<close>

definition start :: "client \<Rightarrow> string option \<Rightarrow> bool \<Rightarrow> runner_state" where
  "start cl model armed =
     \<lparr>full_response = [], response_file = opened,
      console = [StreamingBanner model, BaseUrlLine (base_url cl)],
      alarm_pending = armed\<rparr>"

text \<open>
  The end of \<^verbatim>\<open>create_completion\<close>, from the state the loop has reached and the way
  it ended: the file is closed by its \<^verbatim>\<open>with\<close> block on every path that returns.
\<close>

definition finish :: "int \<Rightarrow> request \<Rightarrow> runner_state \<times> ending \<Rightarrow> completion" where
  "finish timeout_seconds req run =
     (case run of (st, e) \<Rightarrow>
        (case e of
           EndOfStream \<Rightarrow>
             \<lparr>returned = Some (full_response st),
              saved = file_close (response_file st),
              shown = console st @ [StreamCompleteLine],
              requests = [req],
              hangs = False\<rparr>
         | TimeoutException \<Rightarrow>
             \<lparr>returned = None,
              saved = file_close (response_file st),
              shown = console st @ [TimeoutLine timeout_seconds],
              requests = [req],
              hangs = False\<rparr>
         | OtherException \<Rightarrow>
             \<lparr>returned = None,
              saved = file_close (response_file st),
              shown = console st @ [FullErrorDetails],
              requests = [req],
              hangs = False\<rparr>
         | Blocked \<Rightarrow>
             \<lparr>returned = None,
              saved = response_file st,
              shown = console st,
              requests = [req],
              hangs = True\<rparr>))"

text \<open>
  \<^verbatim>\<open>create_completion\<close>. When the alarm cannot be set, the exception leaves the
  \<^verbatim>\<open>with\<close> blocks before any request is made and is caught by the outer handler.
\<close>

definition create_completion ::
  "client \<Rightarrow> string option \<Rightarrow> string \<Rightarrow> rat \<Rightarrow> bool \<Rightarrow> int \<Rightarrow> completion"
where
  "create_completion cl model prompt temperature stream timeout_seconds =
     (let req = \<lparr>req_model = model, req_prompt = prompt,
                 req_temperature = temperature, req_stream = stream\<rparr>
      in case signal_alarm timeout_seconds of
           ArmingFails \<Rightarrow>
             \<lparr>returned = None,
              saved = file_close opened,
              shown = [StreamingBanner model, BaseUrlLine (base_url cl), FullErrorDetails],
              requests = [],
              hangs = False\<rparr>
         | NotArmed \<Rightarrow> finish timeout_seconds req (consume (start cl model False) (respond cl req))
         | Armed \<Rightarrow> finish timeout_seconds req (consume (start cl model True) (respond cl req)))"

text \<open>
  The fragments that reach line 48, in the order of arrival: those of the events before
  the first stall or failure of the channel, except where the exception arises before
  the append.
\<close>

fun fragment_text :: "chunk \<Rightarrow> string" where
  "fragment_text (Content s) = s"
| "fragment_text NoContent = []"
| "fragment_text Malformed = []"

fun accepted :: "channel_event list \<Rightarrow> string list" where
  "accepted [] = []"
| "accepted (Chunk c # es) = fragment_text c # accepted es"
| "accepted (Stall # es) = []"
| "accepted (ChannelError # es) = []"
| "accepted (Disturbed s BeforeAppend by_alarm # es) = accepted es"
| "accepted (Disturbed s BeforeWrite by_alarm # es) = s # accepted es"
| "accepted (Disturbed s BeforeFlush by_alarm # es) = s # accepted es"
| "accepted (Disturbed s BeforePrint by_alarm # es) = s # accepted es"

text \<open>
  The state between two iterations of the loop when all is well: nothing is left in
  the buffer of the response file, and the file holds what \<^verbatim>\<open>full_response\<close> holds.
\<close>

definition in_step :: "runner_state \<Rightarrow> bool" where
  "in_step st =
     (pending (response_file st) = [] \<and> contents (response_file st) = full_response st)"

text \<open>
  The events that leave the file in step with \<^verbatim>\<open>full_response\<close>: all but an
  exception between the append (line 48) and the end of the flush (line 50).
\<close>

fun keeps_step :: "channel_event \<Rightarrow> bool" where
  "keeps_step (Chunk c) = True"
| "keeps_step Stall = True"
| "keeps_step ChannelError = True"
| "keeps_step (Disturbed s BeforeAppend by_alarm) = True"
| "keeps_step (Disturbed s BeforeWrite by_alarm) = False"
| "keeps_step (Disturbed s BeforeFlush by_alarm) = False"
| "keeps_step (Disturbed s BeforePrint by_alarm) = True"

text \<open>
  \<^verbatim>\<open>get_prompt\<close> returns the stripped text of the prompt file, or \<^verbatim>\<open>None\<close> when
  reading raises. \<^verbatim>\<open>str.strip()\<close> removes leading and trailing whitespace; on the
  characters a \<open>string\<close> has here (codes 0 to 255) these are the codes 9 to 13, 28 to
  32, 133 and 160.
\<close>

definition is_space :: "char \<Rightarrow> bool" where
  "is_space c =
     (let n = (of_char c :: nat)
      in (9 \<le> n \<and> n \<le> 13) \<or> (28 \<le> n \<and> n \<le> 32) \<or> n = 133 \<or> n = 160)"

definition strip :: "string \<Rightarrow> string" where
  "strip s = rev (dropWhile is_space (rev (dropWhile is_space s)))"

record environment =
  INFERENCE_API_KEY :: "string option"
  INFERENCE_API_BASE_URL :: "string option"
  INFERENCE_API_MODEL :: "string option"
  prompt_txt :: "string option"
  capability :: "request \<Rightarrow> channel_event list"

definition get_prompt :: "environment \<Rightarrow> string option \<times> printed list" where
  "get_prompt env =
     (case prompt_txt env of
        Some text \<Rightarrow> (Some (strip text), [])
      | None \<Rightarrow> (None, [PromptReadError]))"

record main_run =
  printed_lines :: "printed list"
  contacted :: "request list"
  main_hangs :: bool

text \<open>
  \<^verbatim>\<open>main\<close>: the header line is printed, then slicing the API key raises when the
  variable is unset (caught by the outer handler); the guard before the request tests
  \<^verbatim>\<open>prompt is None\<close>; the default base URL of the client library stands for an unset
  \<^verbatim>\<open>INFERENCE_API_BASE_URL\<close>. When the call of \<^verbatim>\<open>create_completion\<close> hangs, so does
  \<^verbatim>\<open>main\<close>.
\<close>

definition default_base_url :: string where
  "default_base_url = ''https://api.openai.com/v1''"

definition main :: "environment \<Rightarrow> main_run" where
  "main env =
     (case INFERENCE_API_KEY env of
        None \<Rightarrow>
          \<lparr>printed_lines = [EnvironmentHeader, UnexpectedError], contacted = [],
           main_hangs = False\<rparr>
      | Some key \<Rightarrow>
          (let openai = \<lparr>base_url = (case INFERENCE_API_BASE_URL env of
                                        Some u \<Rightarrow> u | None \<Rightarrow> default_base_url),
                         respond = capability env\<rparr>;
               model = INFERENCE_API_MODEL env;
               (prompt, lines) = get_prompt env
           in case prompt of
                None \<Rightarrow>
                  \<lparr>printed_lines =
                     [EnvironmentHeader, EnvironmentLines] @ lines @ [PromptIsEmpty],
                   contacted = [], main_hangs = False\<rparr>
              | Some p \<Rightarrow>
                  (let c = create_completion openai model p (6 / 10) True 900;
                       out = [EnvironmentHeader, EnvironmentLines] @ lines
                               @ [PromptLength (length p)] @ shown c
                   in if hangs c then
                        \<lparr>printed_lines = out, contacted = requests c, main_hangs = True\<rparr>
                      else
                        (case returned c of
                           None \<Rightarrow>
                             \<lparr>printed_lines = out @ [NoCompletionGenerated],
                              contacted = requests c, main_hangs = False\<rparr>
                         | Some text \<Rightarrow>
                             \<lparr>printed_lines = out, contacted = requests c,
                              main_hangs = False\<rparr>))))"

section \<open>The generator of the streaming client (openai-streaming-client/src/main.py)\<close>



section \<open>The outcome the specification describes\<close>




section \<open>Concrete runs\<close>

text \<open>
  A channel that delivers the fragment \<open>Hel\<close>, stays silent until the alarm goes off,
  and would have delivered \<open>lo\<close> after that.
\<close>

definition hel_then_stall :: client where
  "hel_then_stall =
     \<lparr>base_url = ''http://localhost'',
      respond = (\<lambda>req. [Chunk (Content ''Hel''), Stall, Chunk (Content ''lo'')])\<rparr>"

text \<open>
  A channel that delivers three fragments, with an empty one and a chunk without
  content among them, and ends.
\<close>

definition hello_world :: client where
  "hello_world =
     \<lparr>base_url = ''http://localhost'',
      respond = (\<lambda>req. [Chunk (Content ''Hello''), Chunk (Content []), Chunk NoContent,
                         Chunk (Content '', ''), Chunk (Content ''world'')])\<rparr>"

text \<open>
  A run in which the second fragment cannot be written, a run in which the alarm goes
  off while the first fragment is handled and the channel falls silent afterwards, and
  a run of undisturbed chunks followed by a stall.
\<close>

definition failed_write :: "channel_event list" where
  "failed_write = [Chunk (Content ''a''), Disturbed ''b'' BeforeWrite False,
                   Chunk (Content ''c'')]"

definition swallowed_alarm :: "channel_event list" where
  "swallowed_alarm = [Disturbed ''Hel'' BeforeFlush True, Stall]"

definition quiet_run :: "channel_event list" where
  "quiet_run = [Chunk (Content ''Hel''), Chunk Malformed, Disturbed ''lo'' BeforePrint False,
                Stall]"

text \<open>
  An environment in which every variable is set and the prompt file holds nothing but
  a line break.
\<close>

definition blank_prompt_env :: environment where
  "blank_prompt_env =
     \<lparr>INFERENCE_API_KEY = Some ''sk-test'',
      INFERENCE_API_BASE_URL = Some ''http://localhost'',
      INFERENCE_API_MODEL = Some ''m'',
      prompt_txt = Some [CHR 0x0A],
      capability = (\<lambda>req. [Chunk (Content ''Hello'')])\<rparr>"

section \<open>Properties of the retry wrapper\<close>

text \<open>The loop is unfolded one iteration at a time, by the five lemmas below.\<close>

declare retry_loop.simps [simp del]

lemma retry_loop_stop:
  "\<not> retries < max_retries \<Longrightarrow>
   retry_loop func max_retries max_delay retries delay s =
     \<lparr>result = Inl (Exhausted exhausted_message), trace = [], final = s\<rparr>"
  by (subst retry_loop.simps) simp

lemma retry_loop_again:
  "retries < max_retries \<Longrightarrow> fst (func s) = RaisedRetryable \<Longrightarrow>
   0 \<le> delay \<Longrightarrow> delay \<le> sleep_max \<Longrightarrow>
   retry_loop func max_retries max_delay retries delay s =
     emit [Called, Warned warning_message, Slept delay]
       (retry_loop func max_retries max_delay (retries + 1)
          (min (delay * 2) max_delay) (snd (func s)))"
  by (subst retry_loop.simps) simp

lemma retry_loop_overflow:
  "retries < max_retries \<Longrightarrow> fst (func s) = RaisedRetryable \<Longrightarrow>
   0 \<le> delay \<Longrightarrow> sleep_max < delay \<Longrightarrow>
   retry_loop func max_retries max_delay retries delay s =
     \<lparr>result = Inl SleepOverflowError,
      trace = [Called, Warned warning_message], final = snd (func s)\<rparr>"
  by (subst retry_loop.simps) simp

lemma retry_loop_other:
  "retries < max_retries \<Longrightarrow> fst (func s) = RaisedOther e \<Longrightarrow>
   retry_loop func max_retries max_delay retries delay s =
     \<lparr>result = Inl (Propagated e), trace = [Called], final = snd (func s)\<rparr>"
  by (subst retry_loop.simps) simp

lemma retry_loop_returned:
  "retries < max_retries \<Longrightarrow> fst (func s) = Returned v \<Longrightarrow>
   retry_loop func max_retries max_delay retries delay s =
     \<lparr>result = Inr v, trace = [Called], final = snd (func s)\<rparr>"
  by (subst retry_loop.simps) simp

lemma emit_simps [simp]:
  "result (emit es r) = result r"
  "trace (emit es r) = es @ trace r"
  "final (emit es r) = final r"
  by (simp_all add: emit_def)

lemma doubling_capped:
  fixes d m :: int
  assumes "0 < d" "d \<le> m"
  shows "min (min (d * 2) m * 2 ^ j) m = min (d * 2 ^ Suc j) m"
proof (cases "d * 2 \<le> m")
  case True
  then show ?thesis by (simp add: mult.assoc)
next
  case False
  have p: "(1::int) \<le> 2 ^ j" by simp
  from assms have m0: "0 < m" by simp
  have "m * 1 \<le> m * 2 ^ j" using m0 p by (intro mult_left_mono) simp_all
  moreover have "d * 2 * 1 \<le> d * 2 * 2 ^ j" using assms(1) p by (intro mult_left_mono) simp_all
  ultimately show ?thesis using False by (simp add: min_def mult.assoc)
qed



lemma gaps_loop:
  "0 < delay \<Longrightarrow> delay \<le> max_delay \<Longrightarrow>
   i < length (sleeps_before_calls
                 (trace (retry_loop func max_retries max_delay retries delay s)) acc) \<Longrightarrow>
   sleeps_before_calls (trace (retry_loop func max_retries max_delay retries delay s)) acc ! i
     = (if i = 0 then rev acc else [min (delay * 2 ^ (i - 1)) max_delay])"
proof (induction func max_retries max_delay retries delay s arbitrary: acc i
       rule: retry_loop.induct)
  case (1 func max_retries max_delay retries delay s)
  show ?case
  proof (cases "retries < max_retries")
    case False
    then show ?thesis using "1.prems"(3) by (simp add: retry_loop_stop)
  next
    case lt: True
    show ?thesis
    proof (cases "fst (func s)")
      case (Returned v)
      then show ?thesis using "1.prems"(3) by (simp add: retry_loop_returned[OF lt])
    next
      case (RaisedOther e)
      then show ?thesis using "1.prems"(3) by (simp add: retry_loop_other[OF lt])
    next
      case RaisedRetryable
      have nn: "\<not> delay < 0" and d0: "0 \<le> delay" using "1.prems"(1) by simp_all
      have d': "0 < min (delay * 2) max_delay" "min (delay * 2) max_delay \<le> max_delay"
        using "1.prems"(1,2) by simp_all
      show ?thesis
      proof (cases "sleep_max < delay")
        case True
        have "retry_loop func max_retries max_delay retries delay s =
                \<lparr>result = Inl SleepOverflowError,
                 trace = [Called, Warned warning_message], final = snd (func s)\<rparr>"
          using lt RaisedRetryable d0 True by (rule retry_loop_overflow)
        then show ?thesis using "1.prems"(3) by simp
      next
        case no: False
        then have ds: "delay \<le> sleep_max" by simp
      have unfold: "retry_loop func max_retries max_delay retries delay s =
          emit [Called, Warned warning_message, Slept delay]
            (retry_loop func max_retries max_delay (retries + 1)
               (min (delay * 2) max_delay) (snd (func s)))"
        using lt RaisedRetryable d0 ds by (rule retry_loop_again)
      show ?thesis
      proof (cases i)
        case 0
        then show ?thesis by (simp add: unfold)
      next
        case (Suc k)
        have len: "k < length (sleeps_before_calls
                     (trace (retry_loop func max_retries max_delay (retries + 1)
                        (min (delay * 2) max_delay) (snd (func s)))) [delay])"
          using "1.prems"(3) Suc by (simp add: unfold)
        note IH = "1.IH"[OF lt RaisedRetryable nn no d' len]
        show ?thesis
        proof (cases k)
          case 0
          then show ?thesis using IH Suc "1.prems"(2) by (simp add: unfold)
        next
          case (Suc j)
          then show ?thesis
            using IH \<open>i = Suc k\<close> doubling_capped[OF "1.prems"(1,2), of j]
            by (simp add: unfold)
        qed
      qed
      qed
    qed
  qed
qed


text \<open>
  Claim C2. With \<open>0 < base_delay \<le> max_delay\<close>, whatever the operation does: nothing
  is slept before the first call, and for \<open>n \<ge> 2\<close> exactly one delay is slept between
  call \<open>n - 1\<close> and call \<open>n\<close>, namely \<open>min (base_delay * 2 ^ (n - 2)) max_delay\<close>.
  The hypothesis on the length says that the wrapper made an \<open>n\<close>-th call.
\<close>

theorem backoff_delay_before_attempt:
  assumes "0 < base_delay" and "base_delay \<le> max_delay"
    and "1 \<le> n"
    and "n \<le> length (sleeps_before_calls
                 (trace (retry_with_backoff func max_retries base_delay max_delay s)) [])"
  shows "sleeps_before_calls
           (trace (retry_with_backoff func max_retries base_delay max_delay s)) [] ! (n - 1)
         = (if n = 1 then [] else [min (base_delay * 2 ^ (n - 2)) max_delay])"
proof -
  have i: "n - 1 < length (sleeps_before_calls
             (trace (retry_loop func max_retries max_delay 0 base_delay s)) [])"
    using assms(3,4) by (simp add: retry_with_backoff_def)
  have two: "n - 1 - 1 = n - 2" by simp
  have one: "(n - 1 = 0) = (n = 1)" using assms(3) by auto
  show ?thesis
    using gaps_loop[OF assms(1,2) i] unfolding retry_with_backoff_def two one by simp
qed

theorem backoff_delay_before_attempt_witness:
  "(0::int) < 1 \<and> (1::int) \<le> 60 \<and> (1::nat) \<le> 8
   \<and> 8 \<le> length (sleeps_before_calls
                  (trace (retry_with_backoff always_retryable 8 1 60 ())) [])
   \<and> sleeps_before_calls (trace (retry_with_backoff always_retryable 8 1 60 ())) [] ! (8 - 1)
       = [60]
   \<and> sleeps_before_calls (trace (retry_with_backoff always_retryable 8 1 60 ())) [] ! 0 = []"
proof -
  have len: "8 \<le> length (sleeps_before_calls
                (trace (retry_with_backoff always_retryable 8 1 60 ())) [])"
    by (simp add: retry_with_backoff_def retry_loop.simps always_retryable_def sleep_max_def)
  have a: "sleeps_before_calls (trace (retry_with_backoff always_retryable 8 1 60 ())) []
             ! (8 - 1) = [60]"
    using backoff_delay_before_attempt[of 1 60 8 always_retryable 8 "()"] len by simp
  have len1: "1 \<le> length (sleeps_before_calls
                (trace (retry_with_backoff always_retryable 8 1 60 ())) [])"
    using len by simp
  have b: "sleeps_before_calls (trace (retry_with_backoff always_retryable 8 1 60 ())) []
             ! 0 = []"
    using backoff_delay_before_attempt[of 1 60 1 always_retryable 8 "()"] len1 by simp
  show ?thesis using len a b by simp
qed



text \<open>
  Claim C4. When the operation raises an exception that is not a \<^verbatim>\<open>RetryableError\<close>,
  the wrapper calls it at most once and sleeps never; if the loop is entered at all
  (\<open>0 < max_retries\<close>) the run is the single call, and the exception leaves the wrapper.
\<close>

theorem non_retryable_propagates_at_once:
  assumes "fst (func s) = RaisedOther e"
  shows "calls (trace (retry_with_backoff func max_retries base_delay max_delay s)) \<le> 1
       \<and> sleeps (trace (retry_with_backoff func max_retries base_delay max_delay s)) = []
       \<and> (0 < max_retries \<longrightarrow>
            retry_with_backoff func max_retries base_delay max_delay s
              = \<lparr>result = Inl (Propagated e), trace = [Called], final = snd (func s)\<rparr>)"
proof (cases "0 < max_retries")
  case True
  then show ?thesis
    using assms by (simp add: retry_with_backoff_def retry_loop_other calls_def sleeps_def)
next
  case False
  then show ?thesis
    by (simp add: retry_with_backoff_def retry_loop_stop calls_def sleeps_def)
qed

theorem non_retryable_propagates_at_once_witness:
  "fst (always_other ()) = RaisedOther ''KeyError''
   \<and> calls (trace (retry_with_backoff always_other 3 1 60 ())) \<le> 1
   \<and> sleeps (trace (retry_with_backoff always_other 3 1 60 ())) = []
   \<and> retry_with_backoff always_other 3 1 60 ()
       = \<lparr>result = Inl (Propagated ''KeyError''), trace = [Called], final = ()\<rparr>"
proof -
  have h: "fst (always_other ()) = RaisedOther ''KeyError''"
    by (simp add: always_other_def)
  show ?thesis
    using h non_retryable_propagates_at_once[of always_other "()" "''KeyError''" 3 1 60]
    by (simp add: calls_def sleeps_def)
qed

text \<open>
  Claim C5, evaluated on the code. The message of the summary exception is the string
  literal of the source, with the placeholder \<^verbatim>\<open>{max_retries}\<close> left as it is: it is
  the same for a budget of 3 and of 5 attempts and names neither number.
\<close>

theorem exhausted_message_is_literal:
  "result (retry_with_backoff always_retryable 3 1 60 ())
     = Inl (Exhausted ''Function failed after {max_retries} attempts'')
   \<and> result (retry_with_backoff always_retryable 5 1 60 ())
     = result (retry_with_backoff always_retryable 3 1 60 ())"
  by (simp add: retry_with_backoff_def retry_loop.simps always_retryable_def
        exhausted_message_def sleep_max_def)



text \<open>
  Beyond \<open>sleep_max\<close> the first sleep is refused: one call, one warning, and the
  \<^verbatim>\<open>OverflowError\<close> of \<^verbatim>\<open>time.sleep\<close> instead of the summary exception.
\<close>

lemma oversized_delay_is_refused:
  "retry_with_backoff always_retryable 3 (10 ^ 20) (10 ^ 20) ()
     = \<lparr>result = Inl SleepOverflowError,
        trace = [Called, Warned warning_message], final = ()\<rparr>"
  by (simp add: retry_with_backoff_def retry_loop.simps always_retryable_def sleep_max_def)

text \<open>
  Claim C10. With \<open>max_retries \<le> 0\<close> the loop body never runs: the operation is not
  called, nothing is logged or slept, and the summary exception is raised at once.
\<close>

theorem no_attempt_without_budget:
  assumes "max_retries \<le> 0"
  shows "retry_with_backoff func max_retries base_delay max_delay s
           = \<lparr>result = Inl (Exhausted exhausted_message), trace = [], final = s\<rparr>
       \<and> calls (trace (retry_with_backoff func max_retries base_delay max_delay s)) = 0
       \<and> sleeps (trace (retry_with_backoff func max_retries base_delay max_delay s)) = []"
  using assms by (simp add: retry_with_backoff_def retry_loop_stop calls_def sleeps_def)

theorem no_attempt_without_budget_witness:
  "(-2::int) \<le> 0
   \<and> retry_with_backoff always_other (-2) 1 60 ()
       = \<lparr>result = Inl (Exhausted exhausted_message), trace = [], final = ()\<rparr>
   \<and> retry_with_backoff always_other 0 1 60 ()
       = \<lparr>result = Inl (Exhausted exhausted_message), trace = [], final = ()\<rparr>"
  using no_attempt_without_budget[of "-2" always_other 1 60 "()"]
    no_attempt_without_budget[of 0 always_other 1 60 "()"]
  by simp

section \<open>Properties of the streaming runner\<close>

lemma in_step_start: "in_step (start cl model armed)"
  by (simp add: in_step_def start_def opened_def)

lemma in_step_process_chunk: "in_step st \<Longrightarrow> in_step (process_chunk st c)"
  by (cases c)
     (simp_all add: in_step_def accumulate_def write_out_def flush_out_def echo_def
        report_def file_write_def file_flush_def)

lemma disturb_fields:
  "full_response (disturb st s p by_alarm) = full_response (interrupted st s p)"
  "response_file (disturb st s p by_alarm) = response_file (interrupted st s p)"
  "console (disturb st s p by_alarm) = console (interrupted st s p)"
  by (simp_all add: disturb_def Let_def)

lemma in_step_disturb:
  "keeps_step (Disturbed s p by_alarm) \<Longrightarrow> in_step st \<Longrightarrow> in_step (disturb st s p by_alarm)"
  by (cases p)
     (simp_all add: disturb_fields in_step_def accumulate_def write_out_def flush_out_def
        report_def file_write_def file_flush_def)

lemma in_step_consume:
  "list_all keeps_step es \<Longrightarrow> in_step st \<Longrightarrow> in_step (fst (consume st es))"
  by (induction st es rule: consume.induct)
     (simp_all add: in_step_process_chunk in_step_disturb)

lemma full_response_process_chunk:
  "full_response (process_chunk st c) = full_response st @ fragment_text c"
  by (cases c)
     (simp_all add: accumulate_def write_out_def flush_out_def echo_def report_def)

lemma full_response_disturb:
  "full_response (disturb st s p by_alarm)
     = full_response st @ concat (accepted [Disturbed s p by_alarm])"
  by (cases p)
     (simp_all add: disturb_fields accumulate_def write_out_def flush_out_def report_def)

lemma accepted_Disturbed:
  "accepted (Disturbed s p by_alarm # es) = accepted [Disturbed s p by_alarm] @ accepted es"
  by (cases p) simp_all

lemma full_response_consume:
  "full_response (fst (consume st es)) = full_response st @ concat (accepted es)"
proof (induction st es rule: consume.induct)
  case (5 st s p by_alarm es)
  then show ?case
    by (simp add: full_response_disturb accepted_Disturbed[of s p by_alarm es]
          del: accepted.simps)
qed (simp_all add: full_response_process_chunk)





lemma accepted_chunks_then_stall:
  "accepted (map Chunk cs @ Stall # rest) = map fragment_text cs"
  by (induction cs) simp_all







text \<open>
  Claim C7 as stated fails: in the iteration that handles the fragment \<open>Hel\<close>, after the
  append of line 48 and before the write of line 49, \<^verbatim>\<open>full_response\<close> holds \<open>Hel\<close>
  and the response file holds nothing.
\<close>

theorem accumulator_ahead_of_sink_counterexample:
  "process_chunk (start hel_then_stall (Some ''m'') True) (Content ''Hel'')
     = echo ''Hel'' (flush_out (write_out ''Hel''
         (accumulate ''Hel'' (start hel_then_stall (Some ''m'') True))))
   \<and> full_response (accumulate ''Hel'' (start hel_then_stall (Some ''m'') True)) = ''Hel''
   \<and> contents (response_file (accumulate ''Hel'' (start hel_then_stall (Some ''m'') True)))
       = []
   \<and> contents (response_file (accumulate ''Hel'' (start hel_then_stall (Some ''m'') True)))
       \<noteq> full_response (accumulate ''Hel'' (start hel_then_stall (Some ''m'') True))"
  by (simp add: accumulate_def start_def opened_def)

text \<open>
  Claim C7, as the code has it. Between two iterations of the loop, after any number
  \<open>k\<close> of events, and as long as no exception has arisen between the append of line 48
  and the end of the flush of line 50, the response file holds exactly what
  \<^verbatim>\<open>full_response\<close> holds, nothing waits in the buffer, and both are the accepted
  fragments, concatenated in the order of arrival.
\<close>

theorem sink_matches_accumulator_between_iterations:
  assumes "list_all keeps_step es"
  shows "contents (response_file (fst (consume (start cl model armed) (take k es))))
           = full_response (fst (consume (start cl model armed) (take k es)))
       \<and> pending (response_file (fst (consume (start cl model armed) (take k es)))) = []
       \<and> full_response (fst (consume (start cl model armed) (take k es)))
           = concat (accepted (take k es))"
proof -
  have "list_all keeps_step (take k es)"
    using assms by (auto simp: list_all_iff dest: in_set_takeD)
  then have "in_step (fst (consume (start cl model armed) (take k es)))"
    by (rule in_step_consume) (rule in_step_start)
  moreover have "full_response (start cl model armed) = []" by (simp add: start_def)
  ultimately show ?thesis
    by (simp add: in_step_def full_response_consume)
qed

theorem sink_matches_accumulator_between_iterations_witness:
  "list_all keeps_step quiet_run
   \<and> contents (response_file
        (fst (consume (start hel_then_stall (Some ''m'') True) (take 3 quiet_run)))) = ''Hello''
   \<and> full_response
        (fst (consume (start hel_then_stall (Some ''m'') True) (take 3 quiet_run))) = ''Hello''
   \<and> concat (accepted (take 3 quiet_run)) = ''Hello''"
proof -
  have q: "list_all keeps_step quiet_run" by (simp add: quiet_run_def)
  have a: "concat (accepted (take 3 quiet_run)) = ''Hello''" by (simp add: quiet_run_def)
  show ?thesis
    using q a
      sink_matches_accumulator_between_iterations[OF q, of hel_then_stall "Some ''m''" True 3]
    by simp
qed

text \<open>
  A write that fails is caught by the handler of the loop body, and the loop goes on:
  the fragment stays in \<^verbatim>\<open>full_response\<close> and never reaches the file.
\<close>

lemma failed_write_leaves_file_behind:
  "full_response (fst (consume (start hel_then_stall (Some ''m'') True) failed_write)) = ''abc''
   \<and> contents (response_file
        (fst (consume (start hel_then_stall (Some ''m'') True) failed_write))) = ''ac''"
  by (simp add: failed_write_def start_def opened_def disturb_def Let_def accumulate_def
        write_out_def flush_out_def echo_def report_def file_write_def file_flush_def)

text \<open>
  An alarm that goes off inside the loop body is caught by the same handler; when the
  channel falls silent afterwards, no alarm is left to end the wait.
\<close>

lemma swallowed_alarm_blocks:
  "snd (consume (start hel_then_stall (Some ''m'') True) swallowed_alarm) = Blocked"
  by (simp add: swallowed_alarm_def start_def opened_def disturb_def Let_def accumulate_def
        write_out_def report_def file_write_def)



text \<open>
  With a deadline beyond the range of a C \<^verbatim>\<open>int\<close> the alarm cannot be set:
  \<^verbatim>\<open>create_completion\<close> returns \<^verbatim>\<open>None\<close> and sends no request.
\<close>

lemma oversized_timeout_sends_nothing:
  "returned (create_completion hello_world (Some ''m'') ''Hi'' (6 / 10) True (2 ^ 31)) = None
   \<and> requests (create_completion hello_world (Some ''m'') ''Hi'' (6 / 10) True (2 ^ 31)) = []"
  by (simp add: create_completion_def signal_alarm_def)




text \<open>
  Claim C6, evaluated on the code. With a prompt file that holds only a line break,
  \<^verbatim>\<open>get_prompt\<close> returns the empty string, which is not \<^verbatim>\<open>None\<close>: the guard of
  \<^verbatim>\<open>main\<close> does not fire, its message is not printed, and the request with the empty
  prompt is sent to the completion capability.
\<close>

theorem blank_prompt_reaches_capability:
  "get_prompt blank_prompt_env = (Some [], [])
   \<and> contacted (main blank_prompt_env)
       = [\<lparr>req_model = Some ''m'', req_prompt = [], req_temperature = 6 / 10,
           req_stream = True\<rparr>]
   \<and> PromptIsEmpty \<notin> set (printed_lines (main blank_prompt_env))"
  by (simp add: blank_prompt_env_def main_def get_prompt_def strip_def is_space_def
        create_completion_def signal_alarm_def finish_def start_def opened_def Let_def
        accumulate_def write_out_def flush_out_def echo_def
        file_write_def file_flush_def file_close_def)

end
